theory Spec2Isabelle
  imports Main "HOL-Library.Finite_Map"
begin

section \<open>JavaScript values\<close>

text \<open>
  \<^verbatim>\<open>src/DesignerWidgetMixin.ts\<close> receives its configuration as \<^verbatim>\<open>properties: any\<close>, tests
  it for truthiness, dereferences it and copies it with object spread. The values are
  therefore modelled dynamically. An object is a finite map from field names to values
  (an object has no duplicate fields, and no statement below depends on the enumeration
  order). Numbers are the integer-valued ones (identifiers and keys). A function value is
  identified by a name.
\<close>

datatype error = TypeError

datatype jsval =
    JUndefined
  | JNull
  | JBool bool
  | JNum int
  | JStr string
  | JObj "(string, jsval) fmap"
  | JFun string

type_synonym obj = "(string, jsval) fmap"

definition bindE :: "error + 'a \<Rightarrow> ('a \<Rightarrow> error + 'b) \<Rightarrow> error + 'b" where
  "bindE m f = (case m of Inl e \<Rightarrow> Inl e | Inr x \<Rightarrow> f x)"

text \<open>Truthiness, as tested by \<^verbatim>\<open>!x\<close>, \<^verbatim>\<open>x && y\<close> and \<^verbatim>\<open>if (x)\<close>.\<close>

fun truthy :: "jsval \<Rightarrow> bool" where
  "truthy JUndefined = False"
| "truthy JNull = False"
| "truthy (JBool b) = b"
| "truthy (JNum n) = (n \<noteq> 0)"
| "truthy (JStr s) = (s \<noteq> [])"
| "truthy (JObj m) = True"
| "truthy (JFun f) = True"

text \<open>
  Strict equality \<^verbatim>\<open>===\<close>. Primitives are compared by type and value. Objects are compared
  by reference in JavaScript; the model carries no object identity and never identifies
  two objects (the source compares identifiers, typed \<^verbatim>\<open>string | number\<close>, and literals).
\<close>

fun strict_eq :: "jsval \<Rightarrow> jsval \<Rightarrow> bool" where
  "strict_eq JUndefined JUndefined = True"
| "strict_eq JNull JNull = True"
| "strict_eq (JBool a) (JBool b) = (a = b)"
| "strict_eq (JNum a) (JNum b) = (a = b)"
| "strict_eq (JStr a) (JStr b) = (a = b)"
| "strict_eq (JFun a) (JFun b) = (a = b)"
| "strict_eq _ _ = False"

text \<open>Reading a field of an object: an absent field reads as \<^verbatim>\<open>undefined\<close>.\<close>

definition js_get :: "obj \<Rightarrow> string \<Rightarrow> jsval" where
  "js_get m k = (case fmlookup m k of None \<Rightarrow> JUndefined | Some v \<Rightarrow> v)"

text \<open>
  Member access \<^verbatim>\<open>x.k\<close> on an arbitrary value, for the field names the source reads
  (\<^verbatim>\<open>properties\<close>, \<^verbatim>\<open>widget\<close>, \<^verbatim>\<open>widgetName\<close>, \<^verbatim>\<open>id\<close>, \<^verbatim>\<open>value\<close>, \<^verbatim>\<open>key\<close>): it raises a
  TypeError on \<^verbatim>\<open>undefined\<close> and \<^verbatim>\<open>null\<close>, and reads \<^verbatim>\<open>undefined\<close> on the other
  primitives and on functions, which have none of these fields.
\<close>

fun member :: "jsval \<Rightarrow> string \<Rightarrow> error + jsval" where
  "member JUndefined k = Inl TypeError"
| "member JNull k = Inl TypeError"
| "member (JObj m) k = Inr (js_get m k)"
| "member _ k = Inr JUndefined"

text \<open>Decimal rendering, for \<^verbatim>\<open>String(n)\<close> and for the index fields of a spread string.\<close>

fun show_nat :: "nat \<Rightarrow> string" where
  "show_nat n =
     (if n < 10 then [char_of (48 + n)]
      else show_nat (n div 10) @ [char_of (48 + n mod 10)])"

declare show_nat.simps [simp del]

definition show_int :: "int \<Rightarrow> string" where
  "show_int i = (if i < 0 then CHR ''-'' # show_nat (nat (- i)) else show_nat (nat i))"

text \<open>
  The coercion \<^verbatim>\<open>String(x)\<close>. A plain object renders as \<^verbatim>\<open>[object Object]\<close>; a function is
  rendered by its name (the engine's rendering is its source text, which the model does
  not carry).
\<close>

fun js_String :: "jsval \<Rightarrow> string" where
  "js_String JUndefined = ''undefined''"
| "js_String JNull = ''null''"
| "js_String (JBool b) = (if b then ''true'' else ''false'')"
| "js_String (JNum n) = show_int n"
| "js_String (JStr s) = s"
| "js_String (JObj m) = ''[object Object]''"
| "js_String (JFun f) = f"

text \<open>
  Object spread \<^verbatim>\<open>{ ...target, ...src }\<close>: the own enumerable fields of \<^verbatim>\<open>src\<close> are copied
  over the fields collected so far. Spreading \<^verbatim>\<open>undefined\<close>, \<^verbatim>\<open>null\<close>, a boolean, a number
  or a function copies nothing; spreading a string copies its characters under their
  indices.
\<close>

fun own_entries :: "jsval \<Rightarrow> obj" where
  "own_entries (JObj m) = m"
| "own_entries (JStr s) =
     fmap_of_list (zip (map show_nat [0..<length s]) (map (\<lambda>c. JStr [c]) s))"
| "own_entries _ = fmempty"

definition spread :: "obj \<Rightarrow> jsval \<Rightarrow> obj" where
  "spread target src = fmadd target (own_entries src)"

section \<open>Rendered nodes\<close>

text \<open>
  A \<^verbatim>\<open>DNode\<close> is \<^verbatim>\<open>null\<close>, \<^verbatim>\<open>undefined\<close>, a string, a boolean, a virtual node (\<^verbatim>\<open>VNode\<close>: tag,
  properties and, when it was built by \<^verbatim>\<open>v(tag, callback)\<close>, the deferred properties
  callback) or a widget node (\<^verbatim>\<open>WNode\<close>: constructor and properties). The children of a
  node are not read by the source and are left out.

  The only deferred properties callback the source builds is the closure of
  \<^verbatim>\<open>_renderTriggerResizeNode\<close>, which captures \<^verbatim>\<open>widget\<close>, \<^verbatim>\<open>activeWidgetId\<close>, \<^verbatim>\<open>onFocus\<close> and
  \<^verbatim>\<open>key\<close>.
\<close>

datatype deferred = TriggerResize jsval jsval jsval string

datatype dnode =
    DNull
  | DUndefined
  | DStr string
  | DBool bool
  | VNode string obj "deferred option"
  | WNode string obj

text \<open>\<^verbatim>\<open>(elm as VNode).properties\<close>, on whatever the node really is.\<close>

fun node_properties :: "dnode \<Rightarrow> error + jsval" where
  "node_properties DNull = Inl TypeError"
| "node_properties DUndefined = Inl TypeError"
| "node_properties (DStr s) = Inr JUndefined"
| "node_properties (DBool b) = Inr JUndefined"
| "node_properties (VNode t p d) = Inr (JObj p)"
| "node_properties (WNode c p) = Inr (JObj p)"

text \<open>The assignment \<^verbatim>\<open>node.properties.k = v\<close> on a virtual or widget node.\<close>

fun set_node_property :: "string \<Rightarrow> jsval \<Rightarrow> dnode \<Rightarrow> dnode" where
  "set_node_property k v (VNode t p d) = VNode t (fmupd k v p) d"
| "set_node_property k v (WNode c p) = WNode c (fmupd k v p)"
| "set_node_property k v n = n"

datatype render_result = Single dnode | Many "dnode list"

section \<open>The instance\<close>

text \<open>
  The state of a \<^verbatim>\<open>Designable\<close> instance: the private \<^verbatim>\<open>_key\<close>, the \<^verbatim>\<open>children\<close> and
  \<^verbatim>\<open>properties\<close> inherited from \<^verbatim>\<open>WidgetBase\<close>, and what its three overridable hooks
  \<^verbatim>\<open>isContainer()\<close>, \<^verbatim>\<open>needOverlay()\<close> and \<^verbatim>\<open>getDefaultValue()\<close> return (the mixin's
  defaults are \<^verbatim>\<open>false\<close>, \<^verbatim>\<open>false\<close> and the empty string).
\<close>

record designable =
  key :: string
  children :: "dnode list"
  properties :: obj
  isContainer :: bool
  needOverlay :: bool
  getDefaultValue :: string

text \<open>The private field \<^verbatim>\<open>_triggerResizeWidgetKey\<close>, initialised once and never assigned.\<close>

definition triggerResizeWidgetKey :: string where
  "triggerResizeWidgetKey = ''__triggerResize__''"

text \<open>
  What the instance does to the outside: it stops an event, asks the \<^verbatim>\<open>Dimensions\<close> and
  \<^verbatim>\<open>Resize\<close> metas for a key, and calls a callback with one argument. The \<^verbatim>\<open>Dimensions\<close>
  meta is a parameter \<open>dims\<close> of the functions below, from a key to the geometry it
  reports; a callback is taken to return normally.
\<close>

datatype effect =
    StopImmediatePropagation
  | DimensionsGet string
  | ResizeGet string
  | Call string jsval

datatype mouse_event = MouseEvent

text \<open>The bound method \<^verbatim>\<open>this._onMouseUp\<close> as a value.\<close>

definition onMouseUp_handler :: jsval where
  "onMouseUp_handler = JFun ''_onMouseUp''"

section \<open>Property resolution: \<^verbatim>\<open>beforeProperties\<close>\<close>

definition valuePropertyIsNull :: "obj \<Rightarrow> error + jsval" where
  "valuePropertyIsNull props =
     (let widget = js_get props ''widget'' in
      if \<not> truthy widget then Inr widget
      else bindE (member widget ''properties'') (\<lambda>wp.
        if \<not> truthy wp then Inr wp
        else bindE (member wp ''value'') (\<lambda>v.
          Inr (JBool (strict_eq v (JStr ''''))))))"

definition onlyContainsCursor :: "designable \<Rightarrow> error + bool" where
  "onlyContainsCursor this =
     (if length (children this) > 1 then Inr False
      else case children this of
        [] \<Rightarrow> Inl TypeError
      | c # cs \<Rightarrow>
          bindE (node_properties c) (\<lambda>p.
          bindE (member p ''widget'') (\<lambda>cursorProperties.
          bindE (member cursorProperties ''widgetName'') (\<lambda>n.
            if strict_eq n (JStr ''Cursor'') then Inr True else Inr False))))"

text \<open>
  The condition \<^verbatim>\<open>this.children.length === 0 || this._onlyContainsCursor()\<close>, which both
  special cases of \<^verbatim>\<open>beforeProperties\<close> test.
\<close>

definition noChildrenOrCursor :: "designable \<Rightarrow> error + bool" where
  "noChildrenOrCursor this =
     (if length (children this) = 0 then Inr True else onlyContainsCursor this)"

text \<open>
  \<open>emptyContainer\<close> is the class name \<^verbatim>\<open>css.emptyContainer\<close> of \<^verbatim>\<open>styles/base.m.css\<close>, a
  parameter here.
\<close>

definition beforeProperties :: "string \<Rightarrow> designable \<Rightarrow> obj \<Rightarrow> error + obj" where
  "beforeProperties emptyContainer this props =
     (let widget = js_get props ''widget'' in
      if \<not> truthy widget then Inr (spread fmempty (JObj props))
      else
        bindE (if isContainer this then noChildrenOrCursor this else Inr False) (\<lambda>c1.
        if c1 then
          bindE (member widget ''properties'') (\<lambda>wp.
            Inr (spread
                  (spread
                    (fmap_of_list
                      [(''extraClasses'', JObj (fmap_of_list [(''root'', JStr emptyContainer)]))])
                    wp)
                  (JObj props)))
        else
          bindE (valuePropertyIsNull props) (\<lambda>vn.
          bindE (if truthy vn then noChildrenOrCursor this else Inr False) (\<lambda>c2.
          if c2 then
            bindE (member widget ''properties'') (\<lambda>wp.
              Inr (fmupd ''value'' (JStr (getDefaultValue this))
                    (spread (spread fmempty wp) (JObj props))))
          else
            bindE (member widget ''properties'') (\<lambda>wp.
              Inr (spread (spread fmempty wp) (JObj props)))))))"

section \<open>Interaction and focus: \<^verbatim>\<open>_onMouseUp\<close>, \<^verbatim>\<open>_focus\<close>, \<^verbatim>\<open>_tryFocus\<close>\<close>

text \<open>The object \<^verbatim>\<open>{ activeWidgetDimensions: dimensions, activeWidgetId: id }\<close>.\<close>

definition focusPayload :: "jsval \<Rightarrow> jsval \<Rightarrow> jsval" where
  "focusPayload dimensions widgetId =
     JObj (fmap_of_list [(''activeWidgetDimensions'', dimensions), (''activeWidgetId'', widgetId)])"

text \<open>
  The expression
  \<^verbatim>\<open>onFocus && onFocus({ activeWidgetDimensions: dimensions, activeWidgetId: widget.id })\<close>,
  which \<^verbatim>\<open>_onMouseUp\<close> and \<^verbatim>\<open>_focus\<close> both end with. A handler returns the effects it had
  and the error it raised, if any.
\<close>

definition callOnFocus :: "jsval \<Rightarrow> jsval \<Rightarrow> jsval \<Rightarrow> effect list \<times> error option" where
  "callOnFocus onFocus dimensions widget =
     (if \<not> truthy onFocus then ([], None)
      else case member widget ''id'' of
        Inl e \<Rightarrow> ([], Some e)
      | Inr i \<Rightarrow>
          (case onFocus of
             JFun f \<Rightarrow>
               ([Call f (focusPayload dimensions i)], None)
           | _ \<Rightarrow> ([], Some TypeError)))"

definition onMouseUp ::
  "(string \<Rightarrow> jsval) \<Rightarrow> designable \<Rightarrow> mouse_event option \<Rightarrow> effect list \<times> error option" where
  "onMouseUp dims this event =
     (case event of
        None \<Rightarrow> ([], None)
      | Some ev \<Rightarrow>
          (let onFocus = js_get (properties this) ''onFocus'';
               widget = js_get (properties this) ''widget'';
               dimensions = dims (key this);
               (tr, err) = callOnFocus onFocus dimensions widget
           in (StopImmediatePropagation # DimensionsGet (key this) # tr, err)))"

definition isFocus :: "jsval \<Rightarrow> jsval \<Rightarrow> error + bool" where
  "isFocus widget activeWidgetId =
     bindE (member widget ''id'') (\<lambda>i. Inr (strict_eq i activeWidgetId))"

definition focus ::
  "(string \<Rightarrow> jsval) \<Rightarrow> designable \<Rightarrow> jsval \<Rightarrow> jsval \<Rightarrow> string \<Rightarrow> effect list \<times> error option" where
  "focus dims this onFocus activeWidgetId k =
     (let widget = js_get (properties this) ''widget'';
          dimensions = dims k;
          (tr, err) = callOnFocus onFocus dimensions widget
      in (DimensionsGet k # ResizeGet (js_String (JStr k)) # tr, err))"

definition tryFocus ::
  "(string \<Rightarrow> jsval) \<Rightarrow> designable \<Rightarrow> jsval \<Rightarrow> jsval \<Rightarrow> jsval \<Rightarrow> string
     \<Rightarrow> effect list \<times> error option" where
  "tryFocus dims this widget activeWidgetId onFocus k =
     (case isFocus widget activeWidgetId of
        Inl e \<Rightarrow> ([], Some e)
      | Inr b \<Rightarrow> if b then focus dims this onFocus activeWidgetId k else ([], None))"

text \<open>
  Running the deferred properties callback of the node built by
  \<^verbatim>\<open>_renderTriggerResizeNode\<close>: it calls \<^verbatim>\<open>_tryFocus\<close> with the captured values and returns
  \<^verbatim>\<open>{ key: this._triggerResizeWidgetKey }\<close>.
\<close>

fun run_deferred ::
  "(string \<Rightarrow> jsval) \<Rightarrow> designable \<Rightarrow> deferred \<Rightarrow> bool \<Rightarrow> effect list \<times> (error + obj)" where
  "run_deferred dims this (TriggerResize widget activeWidgetId onFocus k) inserted =
     (let (tr, err) = tryFocus dims this widget activeWidgetId onFocus k
      in (tr, case err of
                Some e \<Rightarrow> Inl e
              | None \<Rightarrow> Inr (fmap_of_list [(''key'', JStr triggerResizeWidgetKey)])))"

section \<open>Render postprocessing: \<^verbatim>\<open>afterRender\<close>\<close>

definition renderTriggerResizeNode :: "designable \<Rightarrow> string \<Rightarrow> error + dnode" where
  "renderTriggerResizeNode this k =
     (let widget = js_get (properties this) ''widget'';
          activeWidgetId = js_get (properties this) ''activeWidgetId'';
          onFocus = js_get (properties this) ''onFocus''
      in bindE (isFocus widget activeWidgetId) (\<lambda>b.
           if b then Inr (VNode ''span'' fmempty (Some (TriggerResize widget activeWidgetId onFocus k)))
           else Inr DNull))"

text \<open>
  The callback given to \<^verbatim>\<open>find\<close>:
  \<^verbatim>\<open>elm !== null && (elm as VNode).properties.key !== undefined\<close>.
\<close>

definition hasKey :: "dnode \<Rightarrow> error + bool" where
  "hasKey elm =
     (if elm = DNull then Inr False
      else bindE (node_properties elm) (\<lambda>p.
           bindE (member p ''key'') (\<lambda>k. Inr (\<not> strict_eq k JUndefined))))"

text \<open>
  \<^verbatim>\<open>find(array, callback)\<close> of the framework's array shim: the first element, from index
  \<open>i\<close> on, for which the callback holds, with its index, or nothing (\<^verbatim>\<open>undefined\<close>); an
  error the callback raises ends the search.
\<close>

fun find_from :: "('a \<Rightarrow> error + bool) \<Rightarrow> nat \<Rightarrow> 'a list \<Rightarrow> error + (nat \<times> 'a) option" where
  "find_from cb i [] = Inr None"
| "find_from cb i (x # xs) =
     (case cb x of
        Inl e \<Rightarrow> Inl e
      | Inr b \<Rightarrow> if b then Inr (Some (i, x)) else find_from cb (Suc i) xs)"

text \<open>
  The first half of \<^verbatim>\<open>afterRender\<close>: the output as a sequence, the primary node
  \<^verbatim>\<open>widgetNode\<close> with its position in that sequence, and \<^verbatim>\<open>key\<close>.
\<close>

definition locateWidgetNode :: "render_result \<Rightarrow> error + (dnode list \<times> nat \<times> dnode \<times> string)" where
  "locateWidgetNode result =
     (case result of
        Many ns \<Rightarrow>
          bindE (find_from hasKey 0 ns) (\<lambda>node.
            case node of
              None \<Rightarrow> Inl TypeError
            | Some (i, widgetNode) \<Rightarrow>
                bindE (node_properties widgetNode) (\<lambda>p.
                bindE (member p ''key'') (\<lambda>k.
                  Inr (ns, i, widgetNode, js_String k))))
      | Single n \<Rightarrow>
          bindE (node_properties n) (\<lambda>p.
          bindE (member p ''key'') (\<lambda>k.
            Inr ([n], 0, n, js_String k))))"

text \<open>
  \<^verbatim>\<open>afterRender\<close> returns the instance (with \<^verbatim>\<open>_key\<close> assigned, once the primary node was
  found), the effects, and the output sequence or the error raised. Without an overlay
  the handler is assigned to the primary node in place, so the output holds the updated
  node at the primary node's position (the nodes of the rendered sequence are taken to be
  distinct objects). When \<^verbatim>\<open>_renderTriggerResizeNode\<close> raises after that assignment, there
  is no output, and the update of the caller's node is not shown.
\<close>

definition afterRender ::
  "(string \<Rightarrow> jsval) \<Rightarrow> designable \<Rightarrow> render_result
     \<Rightarrow> designable \<times> effect list \<times> (error + dnode list)" where
  "afterRender dims this result =
     (case locateWidgetNode result of
        Inl e \<Rightarrow> (this, [], Inl e)
      | Inr (ns, i, widgetNode, k) \<Rightarrow>
          (let this' = this\<lparr>key := k\<rparr> in
           if needOverlay this' then
             (this', [DimensionsGet k],
              bindE (renderTriggerResizeNode this' k) (\<lambda>t.
                Inr (ns @ [WNode ''Overlay''
                             (fmap_of_list [(''dimensions'', dims k),
                                            (''onMouseUp'', onMouseUp_handler)]),
                           t])))
           else
             (this', [],
              bindE (renderTriggerResizeNode this' k) (\<lambda>t.
                Inr (ns[i := set_node_property ''onmouseup'' onMouseUp_handler widgetNode]
                     @ [t])))))"

section \<open>Notions used in the statements\<close>

text \<open>The rendered output as a sequence: the array itself, or the single node wrapped.\<close>

definition toSequence :: "render_result \<Rightarrow> dnode list" where
  "toSequence result = (case result of Many ns \<Rightarrow> ns | Single n \<Rightarrow> [n])"

text \<open>
  A compensation node is a virtual node with a deferred properties callback (the only
  such callback is the closure of \<^verbatim>\<open>_renderTriggerResizeNode\<close>).
\<close>

fun isTriggerResizeNode :: "dnode \<Rightarrow> bool" where
  "isTriggerResizeNode (VNode t p (Some d)) = True"
| "isTriggerResizeNode _ = False"

text \<open>The keys the metas were asked for, and the callback calls, in a list of effects.\<close>

fun lookupKeys :: "effect list \<Rightarrow> string list" where
  "lookupKeys [] = []"
| "lookupKeys (DimensionsGet k # es) = k # lookupKeys es"
| "lookupKeys (ResizeGet k # es) = k # lookupKeys es"
| "lookupKeys (e # es) = lookupKeys es"

fun callsOf :: "effect list \<Rightarrow> (string \<times> jsval) list" where
  "callsOf [] = []"
| "callsOf (Call f a # es) = (f, a) # callsOf es"
| "callsOf (e # es) = callsOf es"

text \<open>
  A child carries a widget back-reference when it is a virtual or widget node whose
  \<^verbatim>\<open>properties.widget\<close> is neither \<^verbatim>\<open>undefined\<close> nor \<^verbatim>\<open>null\<close>; \<open>childWidgetName\<close> is then
  \<^verbatim>\<open>properties.widget.widgetName\<close>.
\<close>

fun hasWidgetReference :: "dnode \<Rightarrow> bool" where
  "hasWidgetReference (VNode t p d) =
     (js_get p ''widget'' \<noteq> JUndefined \<and> js_get p ''widget'' \<noteq> JNull)"
| "hasWidgetReference (WNode c p) =
     (js_get p ''widget'' \<noteq> JUndefined \<and> js_get p ''widget'' \<noteq> JNull)"
| "hasWidgetReference _ = False"

fun childWidgetName :: "dnode \<Rightarrow> jsval" where
  "childWidgetName (VNode t p d) =
     (case js_get p ''widget'' of JObj w \<Rightarrow> js_get w ''widgetName'' | _ \<Rightarrow> JUndefined)"
| "childWidgetName (WNode c p) =
     (case js_get p ''widget'' of JObj w \<Rightarrow> js_get w ''widgetName'' | _ \<Rightarrow> JUndefined)"
| "childWidgetName _ = JUndefined"

text \<open>Concrete instances and configurations for the examples below.\<close>

definition exampleInstance :: designable where
  "exampleInstance =
     \<lparr>key = '''', children = [], properties = fmempty, isContainer = False,
      needOverlay = False, getDefaultValue = ''''\<rparr>"

definition exampleWidget :: "string \<Rightarrow> obj \<Rightarrow> jsval" where
  "exampleWidget name persisted =
     JObj (fmap_of_list
       [(''id'', JStr ''42''), (''widgetName'', JStr name), (''properties'', JObj persisted)])"

definition exampleCursor :: dnode where
  "exampleCursor =
     WNode ''Cursor'' (fmap_of_list [(''widget'', exampleWidget ''Cursor'' fmempty)])"

definition exampleDims :: "string \<Rightarrow> jsval" where
  "exampleDims k = JObj (fmap_of_list [(''node'', JStr k)])"

definition exampleFocused :: designable where
  "exampleFocused =
     exampleInstance\<lparr>properties :=
       fmap_of_list [(''widget'', exampleWidget ''Text'' fmempty),
                     (''activeWidgetId'', JStr ''42''),
                     (''onFocus'', JFun ''onFocus'')]\<rparr>"

definition exampleNode :: dnode where
  "exampleNode = VNode ''div'' (fmap_of_list [(''key'', JStr ''root'')]) None"

section \<open>Auxiliary facts\<close>

lemma bindE_Inr [simp]: "bindE (Inr x) f = f x"
  by (simp add: bindE_def)

lemma bindE_Inl [simp]: "bindE (Inl e) f = Inl e"
  by (simp add: bindE_def)

lemma bindE_eq_Inr: "bindE m f = Inr y \<longleftrightarrow> (\<exists>x. m = Inr x \<and> f x = Inr y)"
  by (cases m) simp_all

lemma member_truthy: "truthy v \<Longrightarrow> \<exists>x. member v k = Inr x"
  by (cases v) simp_all

lemma strict_eq_undefined [simp]: "strict_eq v JUndefined \<longleftrightarrow> v = JUndefined"
  by (cases v) simp_all

lemma spread_empty_obj [simp]: "spread fmempty (JObj m) = m"
  by (simp add: spread_def)

lemma hasKey_True:
  assumes "hasKey n = Inr True"
  shows "\<exists>p. node_properties n = Inr (JObj p) \<and> js_get p ''key'' \<noteq> JUndefined"
  using assms by (cases n) (simp_all add: hasKey_def)

lemma find_from_Some:
  "find_from cb j ns = Inr (Some (i, n)) \<Longrightarrow>
     j \<le> i \<and> i - j < length ns \<and> ns ! (i - j) = n \<and> cb n = Inr True"
proof (induction ns arbitrary: j)
  case Nil
  then show ?case by simp
next
  case (Cons x xs)
  show ?case
  proof (cases "cb x")
    case (Inl e)
    with Cons.prems show ?thesis by simp
  next
    case (Inr b)
    show ?thesis
    proof (cases b)
      case True
      with Inr Cons.prems show ?thesis by simp
    next
      case False
      with Inr Cons.prems have "find_from cb (Suc j) xs = Inr (Some (i, n))" by simp
      from Cons.IH [OF this] show ?thesis by (auto simp: Suc_diff_Suc nth_Cons')
    qed
  qed
qed

lemma locate_Single:
  "locateWidgetNode (Single m) =
     bindE (node_properties m) (\<lambda>p. bindE (member p ''key'') (\<lambda>k. Inr ([m], 0, m, js_String k)))"
  by (simp add: locateWidgetNode_def)

lemma locate_Many:
  "locateWidgetNode (Many ms) =
     bindE (find_from hasKey 0 ms) (\<lambda>node.
            case node of
              None \<Rightarrow> Inl TypeError
            | Some (i, widgetNode) \<Rightarrow>
                bindE (node_properties widgetNode) (\<lambda>p.
                bindE (member p ''key'') (\<lambda>k.
                  Inr (ms, i, widgetNode, js_String k))))"
  by (simp add: locateWidgetNode_def)

lemma node_key_Inr:
  assumes "bindE (node_properties m) (\<lambda>p. bindE (member p ''key'') (\<lambda>k. Inr (f k))) = Inr y"
  shows "\<exists>p. node_properties m = Inr (JObj p) \<and> y = f (js_get p ''key'')"
  using assms by (cases m) simp_all

lemma locateWidgetNode_Inr:
  assumes "locateWidgetNode result = Inr (ns, i, n, k)"
  shows "ns = toSequence result \<and> i < length ns \<and> ns ! i = n
         \<and> (\<exists>p. node_properties n = Inr (JObj p) \<and> k = js_String (js_get p ''key''))
         \<and> (case result of Single m \<Rightarrow> i = 0
             | Many ms \<Rightarrow> find_from hasKey 0 ms = Inr (Some (i, n)))"
proof (cases result)
  case (Single m)
  from assms [unfolded Single locate_Single]
  obtain p where "node_properties m = Inr (JObj p)"
    and "(ns, i, n, k) = ([m], 0, m, js_String (js_get p ''key''))"
    using node_key_Inr [of m "\<lambda>k. ([m], 0, m, js_String k)"] by blast
  with Single show ?thesis by (simp add: toSequence_def)
next
  case (Many ms)
  from assms [unfolded Many locate_Many] obtain node where f: "find_from hasKey 0 ms = Inr node"
    and r: "(case node of None \<Rightarrow> Inl TypeError
             | Some (i, widgetNode) \<Rightarrow>
                bindE (node_properties widgetNode) (\<lambda>p.
                bindE (member p ''key'') (\<lambda>k. Inr (ms, i, widgetNode, js_String k))))
            = Inr (ns, i, n, k)"
    unfolding bindE_eq_Inr by blast
  from r obtain j m where node: "node = Some (j, m)" by (cases node) auto
  from find_from_Some [OF f [unfolded node]]
  have j: "j < length ms" "ms ! j = m" "hasKey m = Inr True" by auto
  from r [unfolded node] have "bindE (node_properties m) (\<lambda>p.
                bindE (member p ''key'') (\<lambda>k. Inr (ms, j, m, js_String k))) = Inr (ns, i, n, k)"
    by simp
  from node_key_Inr [OF this] obtain p where p: "node_properties m = Inr (JObj p)"
    and e: "(ns, i, n, k) = (ms, j, m, js_String (js_get p ''key''))" by blast
  from e have "ns = ms" "i = j" "n = m" "k = js_String (js_get p ''key'')" by simp_all
  with j p f node Many show ?thesis by (simp add: toSequence_def)
qed

lemma renderTriggerResizeNode_Inr:
  assumes "renderTriggerResizeNode this k = Inr t"
  shows "\<exists>b. isFocus (js_get (properties this) ''widget'')
                 (js_get (properties this) ''activeWidgetId'') = Inr b
     \<and> t = (if b then VNode ''span'' fmempty (Some (TriggerResize (js_get (properties this) ''widget'')
               (js_get (properties this) ''activeWidgetId'') (js_get (properties this) ''onFocus'') k))
            else DNull)"
proof -
  from assms obtain b where
    b: "isFocus (js_get (properties this) ''widget'') (js_get (properties this) ''activeWidgetId'') = Inr b"
    unfolding renderTriggerResizeNode_def Let_def bindE_eq_Inr by blast
  with assms show ?thesis
    by (simp add: renderTriggerResizeNode_def Let_def split: if_splits)
qed

lemma afterRender_located:
  assumes "locateWidgetNode result = Inr (ns, i, n, k)"
  shows "afterRender dims this result =
     (if needOverlay this then
        (this\<lparr>key := k\<rparr>, [DimensionsGet k],
         bindE (renderTriggerResizeNode (this\<lparr>key := k\<rparr>) k) (\<lambda>t.
           Inr (ns @ [WNode ''Overlay''
                        (fmap_of_list [(''dimensions'', dims k), (''onMouseUp'', onMouseUp_handler)]),
                      t])))
      else
        (this\<lparr>key := k\<rparr>, [],
         bindE (renderTriggerResizeNode (this\<lparr>key := k\<rparr>) k) (\<lambda>t.
           Inr (ns[i := set_node_property ''onmouseup'' onMouseUp_handler n] @ [t]))))"
  using assms by (simp add: afterRender_def Let_def)

lemma afterRender_not_located:
  assumes "locateWidgetNode result = Inl e"
  shows "afterRender dims this result = (this, [], Inl e)"
  using assms by (simp add: afterRender_def)

lemma afterRender_Inr:
  assumes "afterRender dims this result = (this', tr, Inr out)"
  shows "\<exists>i n k t. locateWidgetNode result = Inr (toSequence result, i, n, k)
     \<and> this' = this\<lparr>key := k\<rparr>
     \<and> renderTriggerResizeNode this' k = Inr t
     \<and> (needOverlay this \<longrightarrow> tr = [DimensionsGet k] \<and>
          out = toSequence result @ [WNode ''Overlay''
                  (fmap_of_list [(''dimensions'', dims k), (''onMouseUp'', onMouseUp_handler)]), t])
     \<and> (\<not> needOverlay this \<longrightarrow> tr = [] \<and>
          out = (toSequence result)[i := set_node_property ''onmouseup'' onMouseUp_handler n] @ [t])"
proof (cases "locateWidgetNode result")
  case (Inl e)
  from assms afterRender_not_located [OF Inl, of dims this] show ?thesis by simp
next
  case (Inr x)
  obtain ns i n k where x: "x = (ns, i, n, k)" by (cases x) auto
  note loc = Inr [unfolded x]
  from locateWidgetNode_Inr [OF loc] have ns: "ns = toSequence result" by simp
  note ar = afterRender_located [OF loc, of dims this]
  show ?thesis
  proof (cases "needOverlay this")
    case True
    let ?B = "bindE (renderTriggerResizeNode (this\<lparr>key := k\<rparr>) k) (\<lambda>t.
           Inr (ns @ [WNode ''Overlay''
                        (fmap_of_list [(''dimensions'', dims k), (''onMouseUp'', onMouseUp_handler)]),
                      t]))"
    from assms [unfolded ar] True
    have "(this\<lparr>key := k\<rparr>, [DimensionsGet k], ?B) = (this', tr, Inr out)"
      by (simp only: if_True)
    then have this': "this' = this\<lparr>key := k\<rparr>" and tr: "tr = [DimensionsGet k]"
      and o: "?B = Inr out"
      by blast+
    from o obtain t where "renderTriggerResizeNode (this\<lparr>key := k\<rparr>) k = Inr t"
      and "out = ns @ [WNode ''Overlay''
                        (fmap_of_list [(''dimensions'', dims k), (''onMouseUp'', onMouseUp_handler)]), t]"
      unfolding bindE_eq_Inr by auto
    with this' tr True loc ns show ?thesis by blast
  next
    case False
    let ?B = "bindE (renderTriggerResizeNode (this\<lparr>key := k\<rparr>) k) (\<lambda>t.
           Inr (ns[i := set_node_property ''onmouseup'' onMouseUp_handler n] @ [t]))"
    from assms [unfolded ar] False
    have "(this\<lparr>key := k\<rparr>, [], ?B) = (this', tr, Inr out)"
      by (simp only: if_False)
    then have this': "this' = this\<lparr>key := k\<rparr>" and tr: "tr = []"
      and o: "?B = Inr out"
      by blast+
    from o obtain t where "renderTriggerResizeNode (this\<lparr>key := k\<rparr>) k = Inr t"
      and "out = ns[i := set_node_property ''onmouseup'' onMouseUp_handler n] @ [t]"
      unfolding bindE_eq_Inr by auto
    with this' tr False loc ns show ?thesis by blast
  qed
qed

lemma filter_update_same:
  "i < length xs \<Longrightarrow> P x = P (xs ! i) \<Longrightarrow>
     length (filter P (xs[i := x])) = length (filter P xs)"
proof (induction xs arbitrary: i)
  case Nil
  then show ?case by simp
next
  case (Cons a xs)
  then show ?case by (cases i) auto
qed

lemma isTriggerResizeNode_set [simp]:
  "isTriggerResizeNode (set_node_property k v n) = isTriggerResizeNode n"
  by (cases n rule: isTriggerResizeNode.cases) simp_all

lemma valuePropertyIsNull_truthy_widget:
  assumes "truthy (js_get props ''widget'')"
  shows "\<exists>v. valuePropertyIsNull props = Inr v \<and> (truthy v \<longleftrightarrow> v = JBool True)"
proof -
  from member_truthy [OF assms] obtain wp
    where wp: "member (js_get props ''widget'') ''properties'' = Inr wp" by blast
  show ?thesis
  proof (cases "truthy wp")
    case False
    with assms wp have "valuePropertyIsNull props = Inr wp"
      by (simp add: valuePropertyIsNull_def Let_def)
    with False show ?thesis by auto
  next
    case True
    from member_truthy [OF True] obtain v where v: "member wp ''value'' = Inr v" by blast
    with assms wp True
    have "valuePropertyIsNull props = Inr (JBool (strict_eq v (JStr '''')))"
      by (simp add: valuePropertyIsNull_def Let_def)
    then show ?thesis by auto
  qed
qed

lemma onlyContainsCursor_one_child:
  assumes "children this = [c]"
  shows "onlyContainsCursor this =
           (if hasWidgetReference c then Inr (strict_eq (childWidgetName c) (JStr ''Cursor''))
            else Inl TypeError)"
proof (cases c)
  case (VNode t p d)
  with assms show ?thesis
    by (cases "js_get p ''widget''") (simp_all add: onlyContainsCursor_def)
next
  case (WNode t p)
  with assms show ?thesis
    by (cases "js_get p ''widget''") (simp_all add: onlyContainsCursor_def)
qed (use assms in \<open>simp_all add: onlyContainsCursor_def\<close>)

lemma beforeProperties_container:
  assumes "truthy (js_get props ''widget'')" "isContainer this"
  shows "beforeProperties emptyContainer this props =
     bindE (noChildrenOrCursor this) (\<lambda>c1.
        if c1 then
          bindE (member (js_get props ''widget'') ''properties'') (\<lambda>wp.
            Inr (spread
                  (spread
                    (fmap_of_list
                      [(''extraClasses'', JObj (fmap_of_list [(''root'', JStr emptyContainer)]))])
                    wp)
                  (JObj props)))
        else
          bindE (valuePropertyIsNull props) (\<lambda>vn.
          bindE (if truthy vn then noChildrenOrCursor this else Inr False) (\<lambda>c2.
          if c2 then
            bindE (member (js_get props ''widget'') ''properties'') (\<lambda>wp.
              Inr (fmupd ''value'' (JStr (getDefaultValue this))
                    (spread (spread fmempty wp) (JObj props))))
          else
            bindE (member (js_get props ''widget'') ''properties'') (\<lambda>wp.
              Inr (spread (spread fmempty wp) (JObj props))))))"
  using assms by (simp add: beforeProperties_def Let_def)

lemma beforeProperties_leaf:
  assumes "truthy (js_get props ''widget'')" "\<not> isContainer this"
  shows "beforeProperties emptyContainer this props =
          bindE (valuePropertyIsNull props) (\<lambda>vn.
          bindE (if truthy vn then noChildrenOrCursor this else Inr False) (\<lambda>c2.
          if c2 then
            bindE (member (js_get props ''widget'') ''properties'') (\<lambda>wp.
              Inr (fmupd ''value'' (JStr (getDefaultValue this))
                    (spread (spread fmempty wp) (JObj props))))
          else
            bindE (member (js_get props ''widget'') ''properties'') (\<lambda>wp.
              Inr (spread (spread fmempty wp) (JObj props)))))"
  using assms by (simp add: beforeProperties_def Let_def)

lemma callOnFocus_shape:
  "\<exists>cs err. callOnFocus onFocus dimensions widget = (cs, err)
     \<and> (cs = [] \<or> (\<exists>f i. onFocus = JFun f \<and> member widget ''id'' = Inr i
                    \<and> cs = [Call f (focusPayload dimensions i)] \<and> err = None))"
proof (cases "truthy onFocus")
  case False
  then show ?thesis by (simp add: callOnFocus_def)
next
  case True
  show ?thesis
  proof (cases "member widget ''id''")
    case (Inl e)
    with True show ?thesis by (simp add: callOnFocus_def)
  next
    case (Inr i)
    with True show ?thesis by (cases onFocus) (simp_all add: callOnFocus_def)
  qed
qed

lemma callOnFocus_function:
  "member widget ''id'' = Inr i \<Longrightarrow>
     callOnFocus (JFun f) dimensions widget = ([Call f (focusPayload dimensions i)], None)"
  by (simp add: callOnFocus_def)

lemma callOnFocus_absent:
  "\<not> truthy onFocus \<Longrightarrow> callOnFocus onFocus dimensions widget = ([], None)"
  by (simp add: callOnFocus_def)

lemma onMouseUp_Some:
  "onMouseUp dims this (Some ev) =
     (StopImmediatePropagation # DimensionsGet (key this)
        # fst (callOnFocus (js_get (properties this) ''onFocus'') (dims (key this))
                 (js_get (properties this) ''widget'')),
      snd (callOnFocus (js_get (properties this) ''onFocus'') (dims (key this))
                 (js_get (properties this) ''widget'')))"
  by (simp add: onMouseUp_def Let_def split: prod.splits)

lemma focus_unfold:
  "focus dims this onFocus activeWidgetId k =
     (DimensionsGet k # ResizeGet k
        # fst (callOnFocus onFocus (dims k) (js_get (properties this) ''widget'')),
      snd (callOnFocus onFocus (dims k) (js_get (properties this) ''widget'')))"
  by (simp add: focus_def Let_def split: prod.splits)

lemma find_from_no_match:
  assumes "\<forall>n \<in> set ns. cb n \<noteq> Inr True"
  shows "find_from cb j ns = Inr None \<or> (\<exists>e. find_from cb j ns = Inl e)"
  using assms
proof (induction ns arbitrary: j)
  case Nil
  then show ?case by simp
next
  case (Cons x xs)
  show ?case
  proof (cases "cb x")
    case (Inl e)
    then show ?thesis by simp
  next
    case (Inr b)
    with Cons.prems have "\<not> b" by auto
    with Inr Cons show ?thesis by simp
  qed
qed

lemma afterRender_no_keyed_element:
  assumes "\<forall>n \<in> set ns. hasKey n \<noteq> Inr True"
  shows "\<exists>e. afterRender dims this (Many ns) = (this, [], Inl e)"
proof -
  from find_from_no_match [OF assms, of 0]
  have "\<exists>e. locateWidgetNode (Many ns) = Inl e"
    by (auto simp: locate_Many)
  then show ?thesis by (auto simp: afterRender_not_located)
qed

lemma tryFocus_focused:
  assumes "isFocus widget activeWidgetId = Inr True"
  shows "tryFocus dims this widget activeWidgetId onFocus k =
           focus dims this onFocus activeWidgetId k"
  using assms by (simp add: tryFocus_def)

lemma lookupKeys_callOnFocus [simp]:
  "lookupKeys (fst (callOnFocus onFocus dimensions widget)) = []"
  using callOnFocus_shape [of onFocus dimensions widget] by auto

lemma lookupKeys_onMouseUp:
  "set (lookupKeys (fst (onMouseUp dims this ev))) \<subseteq> {key this}"
proof (cases ev)
  case None
  then show ?thesis by (simp add: onMouseUp_def)
next
  case (Some e)
  then show ?thesis by (simp add: onMouseUp_Some)
qed

lemma lookupKeys_tryFocus:
  "set (lookupKeys (fst (tryFocus dims this widget activeWidgetId onFocus k))) \<subseteq> {k}"
proof (cases "isFocus widget activeWidgetId")
  case (Inl e)
  then show ?thesis by (simp add: tryFocus_def)
next
  case (Inr b)
  then show ?thesis by (cases b) (simp_all add: tryFocus_def focus_unfold)
qed

lemma lookupKeys_run_deferred:
  "set (lookupKeys (fst (run_deferred dims this (TriggerResize w a f k) ins))) \<subseteq> {k}"
  using lookupKeys_tryFocus [of dims this w a f k]
  by (cases "tryFocus dims this w a f k") simp

lemma run_deferred_returns_key:
  assumes "run_deferred dims this d ins = (tr, Inr ps)"
  shows "ps = fmap_of_list [(''key'', JStr ''__triggerResize__'')]"
proof (cases d)
  case (TriggerResize w a f k)
  with assms show ?thesis
    by (auto simp: Let_def triggerResizeWidgetKey_def split: prod.splits option.splits)
qed

lemma afterRender_returns:
  assumes "js_get (properties this) ''widget'' = JObj w"
  shows "\<exists>this' tr out. afterRender dims this (Single (VNode t p d)) = (this', tr, Inr out)"
proof -
  have "locateWidgetNode (Single (VNode t p d))
          = Inr ([VNode t p d], 0, VNode t p d, js_String (js_get p ''key''))"
    by (simp add: locate_Single)
  from afterRender_located [OF this, of dims this] assms show ?thesis
    by (simp add: renderTriggerResizeNode_def isFocus_def Let_def)
qed

lemma exampleFocused_render:
  "afterRender exampleDims (exampleFocused\<lparr>needOverlay := ov\<rparr>) (Single exampleNode)
   = (exampleFocused\<lparr>needOverlay := ov, key := ''root''\<rparr>,
      (if ov then [DimensionsGet ''root''] else []),
      Inr (if ov then
             [exampleNode,
              WNode ''Overlay'' (fmap_of_list [(''dimensions'', exampleDims ''root''),
                                               (''onMouseUp'', onMouseUp_handler)]),
              VNode ''span'' fmempty
                (Some (TriggerResize (exampleWidget ''Text'' fmempty) (JStr ''42'')
                         (JFun ''onFocus'') ''root''))]
           else
             [set_node_property ''onmouseup'' onMouseUp_handler exampleNode,
              VNode ''span'' fmempty
                (Some (TriggerResize (exampleWidget ''Text'' fmempty) (JStr ''42'')
                         (JFun ''onFocus'') ''root''))]))"
  by (simp add: Let_def afterRender_def locateWidgetNode_def renderTriggerResizeNode_def isFocus_def
        js_get_def exampleFocused_def exampleInstance_def exampleWidget_def exampleNode_def)

lemma exampleFocused_isFocus:
  "isFocus (js_get (properties (exampleFocused\<lparr>needOverlay := ov\<rparr>)) ''widget'')
     (js_get (properties (exampleFocused\<lparr>needOverlay := ov\<rparr>)) ''activeWidgetId'') = Inr True"
  by (simp add: isFocus_def js_get_def exampleFocused_def exampleInstance_def exampleWidget_def)

section \<open>The claims\<close>

text \<open>
  Claim C1 says that, for a visually empty container, the placeholder style class is
  forced over an \<^verbatim>\<open>extraClasses\<close> field of the incoming configuration. In the source the
  field \<^verbatim>\<open>extraClasses: { root: css.emptyContainer }\<close> is written first in the object
  literal, before both spreads, so an incoming \<^verbatim>\<open>extraClasses\<close> replaces it: a container
  without children that is given \<^verbatim>\<open>extraClasses: { root: 'mine' }\<close> resolves to the class
  \<^verbatim>\<open>mine\<close>, not to the placeholder.
\<close>

theorem empty_container_placeholder_counterexample:
  "isContainer (exampleInstance\<lparr>isContainer := True\<rparr>)
   \<and> children (exampleInstance\<lparr>isContainer := True\<rparr>) = []
   \<and> bindE (beforeProperties ''emptyContainer'' (exampleInstance\<lparr>isContainer := True\<rparr>)
        (fmap_of_list
          [(''widget'', exampleWidget ''View'' fmempty),
           (''extraClasses'', JObj (fmap_of_list [(''root'', JStr ''mine'')]))]))
        (\<lambda>r. member (js_get r ''extraClasses'') ''root'')
      = Inr (JStr ''mine'')
   \<and> JStr ''mine'' \<noteq> JStr ''emptyContainer''"
  by (simp add: beforeProperties_def exampleInstance_def exampleWidget_def
        noChildrenOrCursor_def spread_def js_get_def)

text \<open>
  Claim C1, amended. For an editor-managed container instance that is visually empty,
  the result is the placeholder field \<^verbatim>\<open>extraClasses\<close>, overridden field by field by the
  persisted \<^verbatim>\<open>widget.properties\<close>, overridden field by field by the incoming
  configuration: each field of the result is the incoming one if the incoming
  configuration has it, else the persisted one if there is one, else the placeholder for
  \<^verbatim>\<open>extraClasses\<close>. The placeholder class is thus a default, present in the result when
  neither the persisted nor the incoming configuration has an \<^verbatim>\<open>extraClasses\<close> field.
\<close>

theorem empty_container_placeholder_is_default:
  assumes "isContainer this" and "noChildrenOrCursor this = Inr True"
    and "truthy (js_get props ''widget'')"
    and "member (js_get props ''widget'') ''properties'' = Inr persisted"
  shows "\<exists>r. beforeProperties emptyContainer this props = Inr r
     \<and> (\<forall>k. fmlookup r k =
          (case fmlookup props k of
             Some v \<Rightarrow> Some v
           | None \<Rightarrow>
               (case fmlookup (own_entries persisted) k of
                  Some v \<Rightarrow> Some v
                | None \<Rightarrow>
                    if k = ''extraClasses''
                    then Some (JObj (fmap_of_list [(''root'', JStr emptyContainer)]))
                    else None)))"
proof -
  let ?r = "spread (spread (fmap_of_list
              [(''extraClasses'', JObj (fmap_of_list [(''root'', JStr emptyContainer)]))])
              persisted) (JObj props)"
  from assms have "beforeProperties emptyContainer this props = Inr ?r"
    by (simp add: beforeProperties_container)
  moreover have "fmlookup ?r k =
          (case fmlookup props k of
             Some v \<Rightarrow> Some v
           | None \<Rightarrow>
               (case fmlookup (own_entries persisted) k of
                  Some v \<Rightarrow> Some v
                | None \<Rightarrow>
                    if k = ''extraClasses''
                    then Some (JObj (fmap_of_list [(''root'', JStr emptyContainer)]))
                    else None))" for k
    by (simp add: spread_def fmdom_notI split: option.splits) (auto simp: fmlookup_dom_iff)
  ultimately show ?thesis by blast
qed

text \<open>
  The amended C1 on a container whose only child is the cursor: the placeholder is in
  the result, and the incoming \<^verbatim>\<open>label\<close> wins over the persisted one.
\<close>

theorem empty_container_placeholder_is_default_witness:
  "isContainer (exampleInstance\<lparr>isContainer := True, children := [exampleCursor]\<rparr>)
   \<and> noChildrenOrCursor (exampleInstance\<lparr>isContainer := True, children := [exampleCursor]\<rparr>)
        = Inr True
   \<and> (\<exists>r. beforeProperties ''emptyContainer''
              (exampleInstance\<lparr>isContainer := True, children := [exampleCursor]\<rparr>)
              (fmap_of_list [(''widget'', exampleWidget ''View''
                               (fmap_of_list [(''label'', JStr ''a'')])),
                             (''label'', JStr ''b'')]) = Inr r
          \<and> fmlookup r ''extraClasses''
              = Some (JObj (fmap_of_list [(''root'', JStr ''emptyContainer'')]))
          \<and> fmlookup r ''label'' = Some (JStr ''b''))"
proof -
  let ?c = "exampleInstance\<lparr>isContainer := True, children := [exampleCursor]\<rparr>"
  let ?p = "fmap_of_list [(''widget'', exampleWidget ''View'' (fmap_of_list [(''label'', JStr ''a'')])),
                          (''label'', JStr ''b'')]"
  have h1: "isContainer ?c" by simp
  have h2: "noChildrenOrCursor ?c = Inr True"
    by (simp add: noChildrenOrCursor_def onlyContainsCursor_def exampleCursor_def
          exampleWidget_def js_get_def)
  have h3: "truthy (js_get ?p ''widget'')"
    by (simp add: js_get_def exampleWidget_def)
  have h4: "member (js_get ?p ''widget'') ''properties''
              = Inr (JObj (fmap_of_list [(''label'', JStr ''a'')]))"
    by (simp add: js_get_def exampleWidget_def)
  from empty_container_placeholder_is_default [OF h1 h2 h3 h4, of "''emptyContainer''"]
  obtain r where r: "beforeProperties ''emptyContainer'' ?c ?p = Inr r"
    and l: "\<And>k. fmlookup r k =
          (case fmlookup ?p k of
             Some v \<Rightarrow> Some v
           | None \<Rightarrow>
               (case fmlookup (own_entries (JObj (fmap_of_list [(''label'', JStr ''a'')]))) k of
                  Some v \<Rightarrow> Some v
                | None \<Rightarrow>
                    if k = ''extraClasses''
                    then Some (JObj (fmap_of_list [(''root'', JStr ''emptyContainer'')]))
                    else None))"
    by blast
  have "fmlookup r ''extraClasses'' = Some (JObj (fmap_of_list [(''root'', JStr ''emptyContainer'')]))"
    by (simp add: l)
  moreover have "fmlookup r ''label'' = Some (JStr ''b'')"
    by (simp add: l)
  ultimately show ?thesis using h1 h2 r by blast
qed

text \<open>
  Claim C2 says that for an output sequence without any keyed element the render
  postprocessor does not raise and records an undefined key. In the source \<^verbatim>\<open>find\<close>
  returns \<^verbatim>\<open>undefined\<close> for such a sequence and the next statement reads
  \<^verbatim>\<open>widgetNode.properties.key\<close>, which raises a TypeError before any key is recorded.
  The evaluation below is at the sequence holding one \<^verbatim>\<open>div\<close> without a key; the lemma
  \<open>afterRender_no_keyed_element\<close> above shows the same for every such sequence.
\<close>

theorem afterRender_unkeyed_sequence_raises:
  "hasKey (VNode ''div'' fmempty None) = Inr False
   \<and> afterRender exampleDims exampleInstance (Many [VNode ''div'' fmempty None])
       = (exampleInstance, [], Inl TypeError)"
  by (simp add: afterRender_def locateWidgetNode_def hasKey_def js_get_def)

text \<open>
  Claim C3. For an instance that is not a container, has no child or only the cursor, and
  whose persisted \<^verbatim>\<open>widget.properties.value\<close> is the empty string, the \<^verbatim>\<open>value\<close> of the
  result is \<^verbatim>\<open>getDefaultValue()\<close>, over both the persisted and the incoming value; every
  other field is the one of the persisted properties overridden by the incoming
  configuration. The \<^verbatim>\<open>widget\<close> object is passed through as it came, its persisted
  \<^verbatim>\<open>properties.value\<close> still the empty string: the resolution only builds a new object.
\<close>

theorem empty_value_forced_to_default:
  assumes "\<not> isContainer this" and "noChildrenOrCursor this = Inr True"
    and "js_get props ''widget'' = JObj w"
    and "js_get w ''properties'' = JObj persisted"
    and "js_get persisted ''value'' = JStr ''''"
  shows "\<exists>r. beforeProperties emptyContainer this props = Inr r
     \<and> js_get r ''value'' = JStr (getDefaultValue this)
     \<and> js_get r ''widget'' = JObj w
     \<and> (\<forall>k. k \<noteq> ''value'' \<longrightarrow> fmlookup r k = fmlookup (fmadd persisted props) k)"
proof -
  let ?r = "fmupd ''value'' (JStr (getDefaultValue this)) (fmadd persisted props)"
  from assms have v: "valuePropertyIsNull props = Inr (JBool True)"
    by (simp add: valuePropertyIsNull_def Let_def)
  from assms v have "beforeProperties emptyContainer this props = Inr ?r"
    by (simp add: beforeProperties_leaf spread_def)
  moreover have "js_get ?r ''value'' = JStr (getDefaultValue this)"
    by (simp add: js_get_def)
  moreover from assms(3) have "''widget'' |\<in>| fmdom props"
    by (auto simp: js_get_def fmlookup_dom_iff split: option.splits)
  with assms(3) have "js_get ?r ''widget'' = JObj w"
    by (simp add: js_get_def)
  moreover have "\<forall>k. k \<noteq> ''value'' \<longrightarrow> fmlookup ?r k = fmlookup (fmadd persisted props) k"
    by simp
  ultimately show ?thesis by blast
qed

text \<open>C3 on a childless text instance whose default value is \<^verbatim>\<open>__\<close>.\<close>

theorem empty_value_forced_to_default_witness:
  "\<not> isContainer (exampleInstance\<lparr>getDefaultValue := ''__''\<rparr>)
   \<and> noChildrenOrCursor (exampleInstance\<lparr>getDefaultValue := ''__''\<rparr>) = Inr True
   \<and> (\<exists>r. beforeProperties ''emptyContainer'' (exampleInstance\<lparr>getDefaultValue := ''__''\<rparr>)
              (fmap_of_list [(''widget'', exampleWidget ''Text''
                               (fmap_of_list [(''value'', JStr '''')]))]) = Inr r
          \<and> js_get r ''value'' = JStr ''__''
          \<and> js_get r ''widget'' = exampleWidget ''Text'' (fmap_of_list [(''value'', JStr '''')]))"
proof -
  let ?c = "exampleInstance\<lparr>getDefaultValue := ''__''\<rparr>"
  let ?w = "fmap_of_list [(''id'', JStr ''42''), (''widgetName'', JStr ''Text''),
                          (''properties'', JObj (fmap_of_list [(''value'', JStr '''')]))]"
  let ?p = "fmap_of_list [(''widget'', exampleWidget ''Text'' (fmap_of_list [(''value'', JStr '''')]))]"
  have h1: "\<not> isContainer ?c" by (simp add: exampleInstance_def)
  have h2: "noChildrenOrCursor ?c = Inr True"
    by (simp add: noChildrenOrCursor_def exampleInstance_def)
  have h3: "js_get ?p ''widget'' = JObj ?w" by (simp add: js_get_def exampleWidget_def)
  have h4: "js_get ?w ''properties'' = JObj (fmap_of_list [(''value'', JStr '''')])"
    by (simp add: js_get_def)
  have h5: "js_get (fmap_of_list [(''value'', JStr '''')]) ''value'' = JStr ''''"
    by (simp add: js_get_def)
  from empty_value_forced_to_default [OF h1 h2 h3 h4 h5, of "''emptyContainer''"]
  obtain r where "beforeProperties ''emptyContainer'' ?c ?p = Inr r"
    and "js_get r ''value'' = JStr (getDefaultValue ?c)" and "js_get r ''widget'' = JObj ?w"
    by blast
  then have "beforeProperties ''emptyContainer'' ?c ?p = Inr r \<and> js_get r ''value'' = JStr ''__''
     \<and> js_get r ''widget'' = exampleWidget ''Text'' (fmap_of_list [(''value'', JStr '''')])"
    by (simp add: exampleWidget_def)
  with h1 h2 show ?thesis by blast
qed

text \<open>
  Claim C4. Without an event \<^verbatim>\<open>_onMouseUp\<close> has no effect at all: no propagation change,
  no measurement, no call. With an event it first stops the propagation
  (\<^verbatim>\<open>stopImmediatePropagation\<close>, which also silences the listeners of the same dispatch
  pass), measures the node of the recorded key, and then calls \<^verbatim>\<open>onFocus\<close> at most once:
  the argument of any call is the object whose \<^verbatim>\<open>activeWidgetDimensions\<close> is the measured
  geometry and whose \<^verbatim>\<open>activeWidgetId\<close> is this instance's \<^verbatim>\<open>widget.id\<close>.
  With a function \<^verbatim>\<open>onFocus\<close> and a widget object there is exactly that one call; without
  \<^verbatim>\<open>onFocus\<close> there is none.
\<close>

theorem onMouseUp_effects:
  "onMouseUp dims this None = ([], None)
   \<and> (\<exists>cs err. onMouseUp dims this (Some ev)
                  = (StopImmediatePropagation # DimensionsGet (key this) # cs, err)
        \<and> (cs = [] \<or>
            (\<exists>f i. js_get (properties this) ''onFocus'' = JFun f
                 \<and> member (js_get (properties this) ''widget'') ''id'' = Inr i
                 \<and> cs = [Call f (JObj (fmap_of_list
                                        [(''activeWidgetDimensions'', dims (key this)),
                                         (''activeWidgetId'', i)]))] \<and> err = None)))
   \<and> (\<forall>f w. js_get (properties this) ''onFocus'' = JFun f
            \<and> js_get (properties this) ''widget'' = JObj w \<longrightarrow>
          onMouseUp dims this (Some ev)
            = ([StopImmediatePropagation, DimensionsGet (key this),
                Call f (JObj (fmap_of_list
                          [(''activeWidgetDimensions'', dims (key this)),
                           (''activeWidgetId'', js_get w ''id'')]))], None))
   \<and> (\<not> truthy (js_get (properties this) ''onFocus'') \<longrightarrow>
          onMouseUp dims this (Some ev)
            = ([StopImmediatePropagation, DimensionsGet (key this)], None))"
proof -
  let ?f = "js_get (properties this) ''onFocus''"
  let ?w = "js_get (properties this) ''widget''"
  have a: "onMouseUp dims this None = ([], None)"
    by (simp add: onMouseUp_def)
  from callOnFocus_shape [of ?f "dims (key this)" ?w]
  have b: "\<exists>cs err. onMouseUp dims this (Some ev)
                  = (StopImmediatePropagation # DimensionsGet (key this) # cs, err)
        \<and> (cs = [] \<or>
            (\<exists>f i. ?f = JFun f \<and> member ?w ''id'' = Inr i
                 \<and> cs = [Call f (JObj (fmap_of_list
                                        [(''activeWidgetDimensions'', dims (key this)),
                                         (''activeWidgetId'', i)]))] \<and> err = None))"
    unfolding onMouseUp_Some by (auto simp: focusPayload_def)
  have c: "\<forall>f w. ?f = JFun f \<and> ?w = JObj w \<longrightarrow>
          onMouseUp dims this (Some ev)
            = ([StopImmediatePropagation, DimensionsGet (key this),
                Call f (JObj (fmap_of_list
                          [(''activeWidgetDimensions'', dims (key this)),
                           (''activeWidgetId'', js_get w ''id'')]))], None)"
    by (simp add: onMouseUp_Some callOnFocus_function focusPayload_def)
  have d: "\<not> truthy ?f \<longrightarrow>
          onMouseUp dims this (Some ev)
            = ([StopImmediatePropagation, DimensionsGet (key this)], None)"
    by (simp add: onMouseUp_Some callOnFocus_absent)
  from a b c d show ?thesis by blast
qed

text \<open>C4 on an instance with the recorded key \<^verbatim>\<open>root\<close> and the widget id \<^verbatim>\<open>42\<close>.\<close>

theorem onMouseUp_effects_witness:
  "onMouseUp exampleDims
     (exampleInstance\<lparr>key := ''root'',
        properties := fmap_of_list [(''widget'', exampleWidget ''Text'' fmempty),
                                    (''onFocus'', JFun ''onFocus'')]\<rparr>)
     (Some MouseEvent)
   = ([StopImmediatePropagation, DimensionsGet ''root'',
       Call ''onFocus'' (JObj (fmap_of_list
                           [(''activeWidgetDimensions'', exampleDims ''root''),
                            (''activeWidgetId'', JStr ''42'')]))], None)"
proof -
  let ?inst = "exampleInstance\<lparr>key := ''root'',
        properties := fmap_of_list [(''widget'', exampleWidget ''Text'' fmempty),
                                    (''onFocus'', JFun ''onFocus'')]\<rparr>"
  let ?w = "fmap_of_list [(''id'', JStr ''42''), (''widgetName'', JStr ''Text''),
                          (''properties'', JObj fmempty)]"
  have h1: "js_get (properties ?inst) ''onFocus'' = JFun ''onFocus''"
    by (simp add: js_get_def)
  have h2: "js_get (properties ?inst) ''widget'' = JObj ?w"
    by (simp add: js_get_def exampleWidget_def)
  have h3: "js_get ?w ''id'' = JStr ''42''" by (simp add: js_get_def)
  from onMouseUp_effects [of exampleDims ?inst MouseEvent] h1 h2
  have "onMouseUp exampleDims ?inst (Some MouseEvent)
            = ([StopImmediatePropagation, DimensionsGet (key ?inst),
                Call ''onFocus'' (JObj (fmap_of_list
                                    [(''activeWidgetDimensions'', exampleDims (key ?inst)),
                                     (''activeWidgetId'', js_get ?w ''id'')]))], None)"
    by blast
  with h3 show ?thesis by simp
qed

text \<open>
  Claim C5. Whenever \<^verbatim>\<open>afterRender\<close> returns, its output is the rendered sequence followed
  by what it appends, and the primary node (the single node, or the first element of the
  array that has a defined key) is treated according to \<^verbatim>\<open>needOverlay()\<close>. If it is true,
  an \<^verbatim>\<open>Overlay\<close> node is appended whose properties are the geometry measured for the
  recorded key and the mouse-up handler, and the primary node is left as it was. If it is
  false, the handler is assigned to the primary node's \<^verbatim>\<open>onmouseup\<close> property and the only
  node appended is the value of \<^verbatim>\<open>_renderTriggerResizeNode\<close> (\<^verbatim>\<open>null\<close> or the compensation
  node), so no overlay.
\<close>

theorem overlay_or_direct_handler:
  assumes "afterRender dims this result = (this', tr, Inr out)"
  shows "\<exists>i n t. i < length (toSequence result) \<and> toSequence result ! i = n
      \<and> (case result of Single m \<Rightarrow> i = 0
          | Many ms \<Rightarrow> find_from hasKey 0 ms = Inr (Some (i, n)))
      \<and> (t = DNull \<or> isTriggerResizeNode t)
      \<and> (needOverlay this \<longrightarrow>
            out = toSequence result
                  @ [WNode ''Overlay''
                       (fmap_of_list [(''dimensions'', dims (key this')),
                                      (''onMouseUp'', onMouseUp_handler)]), t]
            \<and> out ! i = n)
      \<and> (\<not> needOverlay this \<longrightarrow>
            out = (toSequence result)[i := set_node_property ''onmouseup'' onMouseUp_handler n]
                  @ [t]
            \<and> (\<exists>p. node_properties (out ! i) = Inr (JObj p)
                  \<and> js_get p ''onmouseup'' = onMouseUp_handler))"
proof -
  from afterRender_Inr [OF assms] obtain i n k t where
    loc: "locateWidgetNode result = Inr (toSequence result, i, n, k)"
    and this': "this' = this\<lparr>key := k\<rparr>"
    and t: "renderTriggerResizeNode this' k = Inr t"
    and ov: "needOverlay this \<longrightarrow> tr = [DimensionsGet k] \<and>
          out = toSequence result @ [WNode ''Overlay''
                  (fmap_of_list [(''dimensions'', dims k), (''onMouseUp'', onMouseUp_handler)]), t]"
    and nov: "\<not> needOverlay this \<longrightarrow> tr = [] \<and>
          out = (toSequence result)[i := set_node_property ''onmouseup'' onMouseUp_handler n] @ [t]"
    by blast
  from locateWidgetNode_Inr [OF loc] obtain p where
    i: "i < length (toSequence result)" and n: "toSequence result ! i = n"
    and p: "node_properties n = Inr (JObj p)"
    and c: "(case result of Single m \<Rightarrow> i = 0
             | Many ms \<Rightarrow> find_from hasKey 0 ms = Inr (Some (i, n)))"
    by blast
  from renderTriggerResizeNode_Inr [OF t] have tt: "t = DNull \<or> isTriggerResizeNode t"
    by (auto split: if_splits)
  from this' have k: "key this' = k" by simp
  have a: "needOverlay this \<longrightarrow>
            out = toSequence result
                  @ [WNode ''Overlay''
                       (fmap_of_list [(''dimensions'', dims (key this')),
                                      (''onMouseUp'', onMouseUp_handler)]), t]
            \<and> out ! i = n"
    using ov i n k by (simp add: nth_append)
  from p have "\<exists>q. node_properties (set_node_property ''onmouseup'' onMouseUp_handler n) = Inr (JObj q)
                  \<and> js_get q ''onmouseup'' = onMouseUp_handler"
    by (cases n) (simp_all add: js_get_def)
  then have b: "\<not> needOverlay this \<longrightarrow>
            out = (toSequence result)[i := set_node_property ''onmouseup'' onMouseUp_handler n]
                  @ [t]
            \<and> (\<exists>p. node_properties (out ! i) = Inr (JObj p)
                  \<and> js_get p ''onmouseup'' = onMouseUp_handler)"
    using nov i by (simp add: nth_append)
  from i n c tt a b show ?thesis by blast
qed

text \<open>C5 on a focused instance that needs an overlay, rendering one \<^verbatim>\<open>div\<close> keyed \<^verbatim>\<open>root\<close>.\<close>

theorem overlay_or_direct_handler_witness:
  "afterRender exampleDims (exampleFocused\<lparr>needOverlay := True\<rparr>) (Single exampleNode)
     = (exampleFocused\<lparr>needOverlay := True, key := ''root''\<rparr>, [DimensionsGet ''root''],
        Inr [exampleNode,
             WNode ''Overlay'' (fmap_of_list [(''dimensions'', exampleDims ''root''),
                                              (''onMouseUp'', onMouseUp_handler)]),
             VNode ''span'' fmempty
               (Some (TriggerResize (exampleWidget ''Text'' fmempty) (JStr ''42'')
                        (JFun ''onFocus'') ''root''))])
   \<and> [exampleNode,
        WNode ''Overlay'' (fmap_of_list [(''dimensions'', exampleDims ''root''),
                                         (''onMouseUp'', onMouseUp_handler)]),
        VNode ''span'' fmempty
          (Some (TriggerResize (exampleWidget ''Text'' fmempty) (JStr ''42'')
                   (JFun ''onFocus'') ''root''))] ! 0 = exampleNode"
proof -
  let ?out = "[exampleNode,
        WNode ''Overlay'' (fmap_of_list [(''dimensions'', exampleDims ''root''),
                                         (''onMouseUp'', onMouseUp_handler)]),
        VNode ''span'' fmempty
          (Some (TriggerResize (exampleWidget ''Text'' fmempty) (JStr ''42'')
                   (JFun ''onFocus'') ''root''))]"
  have h: "afterRender exampleDims (exampleFocused\<lparr>needOverlay := True\<rparr>) (Single exampleNode)
     = (exampleFocused\<lparr>needOverlay := True, key := ''root''\<rparr>, [DimensionsGet ''root''],
        Inr ?out)"
    using exampleFocused_render [of True] by simp
  from overlay_or_direct_handler [OF h] obtain i n where
    "(case Single exampleNode of Single m \<Rightarrow> i = 0
      | Many ms \<Rightarrow> find_from hasKey 0 ms = Inr (Some (i, n)))"
    and "toSequence (Single exampleNode) ! i = n"
    and "needOverlay (exampleFocused\<lparr>needOverlay := True\<rparr>) \<longrightarrow> ?out ! i = n"
    by blast
  then have "?out ! 0 = exampleNode" by (simp add: toSequence_def)
  with h show ?thesis by blast
qed

text \<open>
  Claim C6. Whenever \<^verbatim>\<open>afterRender\<close> returns, \<^verbatim>\<open>widget.id === activeWidgetId\<close> has a value.
  If it is true, the output ends with the compensation node, a \<^verbatim>\<open>span\<close> whose deferred
  properties, whenever and on whatever instance state they are resolved, are exactly
  \<^verbatim>\<open>{ key: '__triggerResize__' }\<close>, the same key in every render; the output has one
  compensation node more than the rendered sequence. If it is false, the output ends with
  \<^verbatim>\<open>null\<close> and has no compensation node that the rendered sequence did not have. The
  statement is about one render from an arbitrary instance state, hence about each of any
  number of renders.
\<close>

theorem compensation_node_iff_focused:
  assumes "afterRender dims this result = (this', tr, Inr out)"
  shows "\<exists>b. isFocus (js_get (properties this) ''widget'')
                (js_get (properties this) ''activeWidgetId'') = Inr b
     \<and> (b \<longrightarrow>
          (\<exists>d. last out = VNode ''span'' fmempty (Some d)
             \<and> (\<forall>dims' that ins tr' ps.
                   run_deferred dims' that d ins = (tr', Inr ps) \<longrightarrow>
                   ps = fmap_of_list [(''key'', JStr ''__triggerResize__'')]))
          \<and> length (filter isTriggerResizeNode out)
              = Suc (length (filter isTriggerResizeNode (toSequence result))))
     \<and> (\<not> b \<longrightarrow>
          last out = DNull
          \<and> length (filter isTriggerResizeNode out)
              = length (filter isTriggerResizeNode (toSequence result)))"
proof -
  from afterRender_Inr [OF assms] obtain i n k t where
    loc: "locateWidgetNode result = Inr (toSequence result, i, n, k)"
    and this': "this' = this\<lparr>key := k\<rparr>"
    and t: "renderTriggerResizeNode this' k = Inr t"
    and ov: "needOverlay this \<longrightarrow>
          out = toSequence result @ [WNode ''Overlay''
                  (fmap_of_list [(''dimensions'', dims k), (''onMouseUp'', onMouseUp_handler)]), t]"
    and nov: "\<not> needOverlay this \<longrightarrow>
          out = (toSequence result)[i := set_node_property ''onmouseup'' onMouseUp_handler n] @ [t]"
    by blast
  from locateWidgetNode_Inr [OF loc]
  have i: "i < length (toSequence result)" and n: "toSequence result ! i = n" by blast+
  from renderTriggerResizeNode_Inr [OF t] this' obtain b where
    b: "isFocus (js_get (properties this) ''widget'')
          (js_get (properties this) ''activeWidgetId'') = Inr b"
    and tb: "t = (if b then VNode ''span'' fmempty (Some (TriggerResize (js_get (properties this) ''widget'')
               (js_get (properties this) ''activeWidgetId'') (js_get (properties this) ''onFocus'') k))
            else DNull)"
    by auto
  have l: "last out = t" using ov nov by (cases "needOverlay this") simp_all
  have cnt: "length (filter isTriggerResizeNode out)
       = length (filter isTriggerResizeNode (toSequence result))
         + (if isTriggerResizeNode t then 1 else 0)"
  proof (cases "needOverlay this")
    case True
    with ov show ?thesis by simp
  next
    case False
    with nov have "out = (toSequence result)[i := set_node_property ''onmouseup'' onMouseUp_handler n] @ [t]"
      by simp
    moreover have "length (filter isTriggerResizeNode
              ((toSequence result)[i := set_node_property ''onmouseup'' onMouseUp_handler n]))
          = length (filter isTriggerResizeNode (toSequence result))"
      using i n by (intro filter_update_same) simp_all
    ultimately show ?thesis by simp
  qed
  show ?thesis
  proof (cases b)
    case True
    with tb l cnt b show ?thesis
      using run_deferred_returns_key by (intro exI [of _ True]) auto
  next
    case False
    with tb l cnt b show ?thesis by (intro exI [of _ False]) simp
  qed
qed

text \<open>C6 on a focused instance without overlay, rendering one \<^verbatim>\<open>div\<close> keyed \<^verbatim>\<open>root\<close>.\<close>

theorem compensation_node_iff_focused_witness:
  "afterRender exampleDims (exampleFocused\<lparr>needOverlay := False\<rparr>) (Single exampleNode)
     = (exampleFocused\<lparr>needOverlay := False, key := ''root''\<rparr>, [],
        Inr [set_node_property ''onmouseup'' onMouseUp_handler exampleNode,
             VNode ''span'' fmempty
               (Some (TriggerResize (exampleWidget ''Text'' fmempty) (JStr ''42'')
                        (JFun ''onFocus'') ''root''))])
   \<and> length (filter isTriggerResizeNode
        [set_node_property ''onmouseup'' onMouseUp_handler exampleNode,
         VNode ''span'' fmempty
           (Some (TriggerResize (exampleWidget ''Text'' fmempty) (JStr ''42'')
                    (JFun ''onFocus'') ''root''))])
      = Suc (length (filter isTriggerResizeNode (toSequence (Single exampleNode))))"
proof -
  let ?out = "[set_node_property ''onmouseup'' onMouseUp_handler exampleNode,
         VNode ''span'' fmempty
           (Some (TriggerResize (exampleWidget ''Text'' fmempty) (JStr ''42'')
                    (JFun ''onFocus'') ''root''))]"
  have h: "afterRender exampleDims (exampleFocused\<lparr>needOverlay := False\<rparr>) (Single exampleNode)
     = (exampleFocused\<lparr>needOverlay := False, key := ''root''\<rparr>, [], Inr ?out)"
    using exampleFocused_render [of False] by simp
  from compensation_node_iff_focused [OF h] exampleFocused_isFocus [of False]
  have "length (filter isTriggerResizeNode ?out)
      = Suc (length (filter isTriggerResizeNode (toSequence (Single exampleNode))))"
    by auto
  with h show ?thesis by blast
qed

text \<open>
  Claim C7. For a focused instance whose render returned, resolving the deferred
  properties of the compensation node, with whatever geometry \<open>dims'\<close> the measurement
  service reports at that moment, measures the node of the recorded key, registers with
  the \<^verbatim>\<open>Resize\<close> meta, and, when \<^verbatim>\<open>onFocus\<close> is a function, calls it exactly once with the
  object whose \<^verbatim>\<open>activeWidgetDimensions\<close> is that geometry and whose \<^verbatim>\<open>activeWidgetId\<close> is this
  instance's \<^verbatim>\<open>widget.id\<close>; the properties it then returns are
  \<^verbatim>\<open>{ key: '__triggerResize__' }\<close>. The result of the \<^verbatim>\<open>Resize\<close> meta is not read, so
  the call does not depend on a layout-change notification. When the configuration has
  no \<^verbatim>\<open>onFocus\<close>, there is no call and nothing is raised.
\<close>

theorem deferred_refocus:
  assumes "afterRender dims this result = (this', tr, Inr out)"
    and "isFocus (js_get (properties this) ''widget'')
           (js_get (properties this) ''activeWidgetId'') = Inr True"
  shows "\<exists>d i. last out = VNode ''span'' fmempty (Some d)
      \<and> member (js_get (properties this) ''widget'') ''id'' = Inr i
      \<and> (\<forall>f. js_get (properties this) ''onFocus'' = JFun f \<longrightarrow>
            run_deferred dims' this' d ins
              = ([DimensionsGet (key this'), ResizeGet (key this'),
                  Call f (JObj (fmap_of_list
                            [(''activeWidgetDimensions'', dims' (key this')),
                             (''activeWidgetId'', i)]))],
                 Inr (fmap_of_list [(''key'', JStr ''__triggerResize__'')])))
      \<and> (\<not> truthy (js_get (properties this) ''onFocus'') \<longrightarrow>
            run_deferred dims' this' d ins
              = ([DimensionsGet (key this'), ResizeGet (key this')],
                 Inr (fmap_of_list [(''key'', JStr ''__triggerResize__'')])))"
proof -
  let ?w = "js_get (properties this) ''widget''"
  let ?a = "js_get (properties this) ''activeWidgetId''"
  let ?f = "js_get (properties this) ''onFocus''"
  from afterRender_Inr [OF assms(1)] obtain i n k t where
    this': "this' = this\<lparr>key := k\<rparr>"
    and t: "renderTriggerResizeNode this' k = Inr t"
    and ov: "needOverlay this \<longrightarrow>
          out = toSequence result @ [WNode ''Overlay''
                  (fmap_of_list [(''dimensions'', dims k), (''onMouseUp'', onMouseUp_handler)]), t]"
    and nov: "\<not> needOverlay this \<longrightarrow>
          out = (toSequence result)[i := set_node_property ''onmouseup'' onMouseUp_handler n] @ [t]"
    by blast
  let ?d = "TriggerResize ?w ?a ?f k"
  from renderTriggerResizeNode_Inr [OF t] this' assms(2)
  have tb: "t = VNode ''span'' fmempty (Some ?d)" by auto
  have l: "last out = VNode ''span'' fmempty (Some ?d)"
    using ov nov tb by (cases "needOverlay this") simp_all
  from assms(2) obtain j where j: "member ?w ''id'' = Inr j"
    unfolding isFocus_def bindE_eq_Inr by blast
  from this' have k: "key this' = k" and p: "properties this' = properties this" by simp_all
  have r: "run_deferred dims' this' ?d ins =
        (DimensionsGet k # ResizeGet k # fst (callOnFocus ?f (dims' k) ?w),
         case snd (callOnFocus ?f (dims' k) ?w) of
           Some e \<Rightarrow> Inl e
         | None \<Rightarrow> Inr (fmap_of_list [(''key'', JStr triggerResizeWidgetKey)]))"
    by (simp add: tryFocus_focused [OF assms(2)] focus_unfold p)
  have a: "\<forall>f. ?f = JFun f \<longrightarrow>
            run_deferred dims' this' ?d ins
              = ([DimensionsGet (key this'), ResizeGet (key this'),
                  Call f (JObj (fmap_of_list
                            [(''activeWidgetDimensions'', dims' (key this')),
                             (''activeWidgetId'', j)]))],
                 Inr (fmap_of_list [(''key'', JStr ''__triggerResize__'')]))"
    unfolding r k
    by (simp add: callOnFocus_function [OF j] focusPayload_def triggerResizeWidgetKey_def)
  have b: "\<not> truthy ?f \<longrightarrow>
            run_deferred dims' this' ?d ins
              = ([DimensionsGet (key this'), ResizeGet (key this')],
                 Inr (fmap_of_list [(''key'', JStr ''__triggerResize__'')]))"
    unfolding r k by (simp add: callOnFocus_absent triggerResizeWidgetKey_def)
  from l j a b show ?thesis by blast
qed

text \<open>C7 on the focused example instance, the callback run with \<^verbatim>\<open>inserted = true\<close>.\<close>

theorem deferred_refocus_witness:
  "afterRender exampleDims (exampleFocused\<lparr>needOverlay := False\<rparr>) (Single exampleNode)
     = (exampleFocused\<lparr>needOverlay := False, key := ''root''\<rparr>, [],
        Inr [set_node_property ''onmouseup'' onMouseUp_handler exampleNode,
             VNode ''span'' fmempty
               (Some (TriggerResize (exampleWidget ''Text'' fmempty) (JStr ''42'')
                        (JFun ''onFocus'') ''root''))])
   \<and> run_deferred exampleDims (exampleFocused\<lparr>needOverlay := False, key := ''root''\<rparr>)
        (TriggerResize (exampleWidget ''Text'' fmempty) (JStr ''42'') (JFun ''onFocus'') ''root'')
        True
      = ([DimensionsGet ''root'', ResizeGet ''root'',
          Call ''onFocus'' (JObj (fmap_of_list
                              [(''activeWidgetDimensions'', exampleDims ''root''),
                               (''activeWidgetId'', JStr ''42'')]))],
         Inr (fmap_of_list [(''key'', JStr ''__triggerResize__'')]))"
proof -
  let ?d = "TriggerResize (exampleWidget ''Text'' fmempty) (JStr ''42'') (JFun ''onFocus'') ''root''"
  let ?out = "[set_node_property ''onmouseup'' onMouseUp_handler exampleNode,
               VNode ''span'' fmempty (Some ?d)]"
  let ?inst = "exampleFocused\<lparr>needOverlay := False\<rparr>"
  have h: "afterRender exampleDims ?inst (Single exampleNode)
     = (exampleFocused\<lparr>needOverlay := False, key := ''root''\<rparr>, [], Inr ?out)"
    using exampleFocused_render [of False] by simp
  have f: "js_get (properties ?inst) ''onFocus'' = JFun ''onFocus''"
    by (simp add: js_get_def exampleFocused_def)
  have w: "member (js_get (properties ?inst) ''widget'') ''id'' = Inr (JStr ''42'')"
    by (simp add: js_get_def exampleFocused_def exampleWidget_def)
  from deferred_refocus [OF h exampleFocused_isFocus [of False], of exampleDims True]
  obtain d i where "last ?out = VNode ''span'' fmempty (Some d)"
    and "member (js_get (properties ?inst) ''widget'') ''id'' = Inr i"
    and "\<forall>f. js_get (properties ?inst) ''onFocus'' = JFun f \<longrightarrow>
            run_deferred exampleDims (exampleFocused\<lparr>needOverlay := False, key := ''root''\<rparr>) d True
              = ([DimensionsGet (key (exampleFocused\<lparr>needOverlay := False, key := ''root''\<rparr>)),
                  ResizeGet (key (exampleFocused\<lparr>needOverlay := False, key := ''root''\<rparr>)),
                  Call f (JObj (fmap_of_list
                            [(''activeWidgetDimensions'', exampleDims (key (exampleFocused\<lparr>needOverlay := False, key := ''root''\<rparr>))),
                             (''activeWidgetId'', i)]))],
                 Inr (fmap_of_list [(''key'', JStr ''__triggerResize__'')]))"
    by blast
  with f w have "run_deferred exampleDims (exampleFocused\<lparr>needOverlay := False, key := ''root''\<rparr>)
        ?d True
      = ([DimensionsGet ''root'', ResizeGet ''root'',
          Call ''onFocus'' (JObj (fmap_of_list
                              [(''activeWidgetDimensions'', exampleDims ''root''),
                               (''activeWidgetId'', JStr ''42'')]))],
         Inr (fmap_of_list [(''key'', JStr ''__triggerResize__'')]))"
    by (simp add: triggerResizeWidgetKey_def)
  with h show ?thesis by blast
qed

text \<open>
  Claim C8. When the incoming configuration has no \<^verbatim>\<open>widget\<close> field, \<^verbatim>\<open>beforeProperties\<close>
  returns a configuration equal to the incoming one, field for field, whatever
  \<^verbatim>\<open>isContainer()\<close> returns and whatever the children and the rest of the instance are.
\<close>

theorem beforeProperties_without_widget:
  assumes "fmlookup props ''widget'' = None"
  shows "beforeProperties emptyContainer this props = Inr props"
  using assms by (simp add: beforeProperties_def js_get_def)

text \<open>C8 at a configuration with a single field \<^verbatim>\<open>label\<close>, on a container instance.\<close>

theorem beforeProperties_without_widget_witness:
  "fmlookup (fmap_of_list [(''label'', JStr ''ok'')]) ''widget'' = None
   \<and> beforeProperties ''emptyContainer'' (exampleInstance\<lparr>isContainer := True\<rparr>)
         (fmap_of_list [(''label'', JStr ''ok'')])
       = Inr (fmap_of_list [(''label'', JStr ''ok'')])"
  using beforeProperties_without_widget
          [of "fmap_of_list [(''label'', JStr ''ok'')]" "''emptyContainer''"
              "exampleInstance\<lparr>isContainer := True\<rparr>"]
  by simp

text \<open>
  Claim C9. The key \<^verbatim>\<open>afterRender\<close> records is \<^verbatim>\<open>String(widgetNode.properties.key)\<close> of the
  primary node, for a single node and for the first keyed element of an array, and it is
  recorded even when the rest of \<^verbatim>\<open>afterRender\<close> raises. For a single virtual node without
  a key it is the string \<^verbatim>\<open>undefined\<close>. Every later lookup uses that string: the metas are
  asked for no other key by \<^verbatim>\<open>_onMouseUp\<close>, and for no other key by the deferred callback of
  the compensation node in the output.
\<close>

theorem recorded_key_is_string_coercion:
  assumes "afterRender dims this result = (this', tr, r)"
  shows "(\<forall>n p. result = Single n \<and> node_properties n = Inr (JObj p) \<longrightarrow>
            key this' = js_String (js_get p ''key''))
     \<and> (\<forall>ns i n p. result = Many ns \<and> find_from hasKey 0 ns = Inr (Some (i, n))
            \<and> node_properties n = Inr (JObj p) \<longrightarrow>
            key this' = js_String (js_get p ''key''))
     \<and> (\<forall>t p d. result = Single (VNode t p d) \<and> js_get p ''key'' = JUndefined \<longrightarrow>
            key this' = ''undefined'')
     \<and> (\<forall>dims' ev. set (lookupKeys (fst (onMouseUp dims' this' ev))) \<subseteq> {key this'})
     \<and> (\<forall>nodes d dims' that ins.
            r = Inr nodes \<and> last nodes = VNode ''span'' fmempty (Some d) \<longrightarrow>
            set (lookupKeys (fst (run_deferred dims' that d ins))) \<subseteq> {key this'})"
proof -
  have key: "key this' = k" if "locateWidgetNode result = Inr (ns, i, n, k)" for ns i n k
    using assms afterRender_located [OF that, of dims this] by (auto split: if_splits)
  have a: "\<forall>n p. result = Single n \<and> node_properties n = Inr (JObj p) \<longrightarrow>
            key this' = js_String (js_get p ''key'')"
  proof (intro allI impI, elim conjE)
    fix n p
    assume "result = Single n" "node_properties n = Inr (JObj p)"
    then have "locateWidgetNode result = Inr ([n], 0, n, js_String (js_get p ''key''))"
      by (simp add: locate_Single)
    then show "key this' = js_String (js_get p ''key'')" by (rule key)
  qed
  have b: "\<forall>ns i n p. result = Many ns \<and> find_from hasKey 0 ns = Inr (Some (i, n))
            \<and> node_properties n = Inr (JObj p) \<longrightarrow>
            key this' = js_String (js_get p ''key'')"
  proof (intro allI impI, elim conjE)
    fix ns i n p
    assume "result = Many ns" "find_from hasKey 0 ns = Inr (Some (i, n))"
      "node_properties n = Inr (JObj p)"
    then have "locateWidgetNode result = Inr (ns, i, n, js_String (js_get p ''key''))"
      by (simp add: locate_Many)
    then show "key this' = js_String (js_get p ''key'')" by (rule key)
  qed
  from a have c: "\<forall>t p d. result = Single (VNode t p d) \<and> js_get p ''key'' = JUndefined \<longrightarrow>
            key this' = ''undefined''"
    by auto
  have d: "\<forall>dims' ev. set (lookupKeys (fst (onMouseUp dims' this' ev))) \<subseteq> {key this'}"
    using lookupKeys_onMouseUp by blast
  have e: "\<forall>nodes d dims' that ins.
            r = Inr nodes \<and> last nodes = VNode ''span'' fmempty (Some d) \<longrightarrow>
            set (lookupKeys (fst (run_deferred dims' that d ins))) \<subseteq> {key this'}"
  proof (intro allI impI, elim conjE)
    fix nodes d dims' that ins
    assume r: "r = Inr nodes" and l: "last nodes = VNode ''span'' fmempty (Some d)"
    from afterRender_Inr [OF assms [unfolded r]] obtain i n k t where
      this': "this' = this\<lparr>key := k\<rparr>"
      and t: "renderTriggerResizeNode this' k = Inr t"
      and ov: "needOverlay this \<longrightarrow>
          nodes = toSequence result @ [WNode ''Overlay''
                  (fmap_of_list [(''dimensions'', dims k), (''onMouseUp'', onMouseUp_handler)]), t]"
      and nov: "\<not> needOverlay this \<longrightarrow>
          nodes = (toSequence result)[i := set_node_property ''onmouseup'' onMouseUp_handler n] @ [t]"
      by blast
    have "last nodes = t" using ov nov by (cases "needOverlay this") simp_all
    with l renderTriggerResizeNode_Inr [OF t] obtain w a f where "d = TriggerResize w a f k"
      by (auto split: if_splits)
    with this' lookupKeys_run_deferred [of dims' that w a f k ins]
    show "set (lookupKeys (fst (run_deferred dims' that d ins))) \<subseteq> {key this'}" by simp
  qed
  from a b c d e show ?thesis by blast
qed

text \<open>C9 on the focused example instance rendering a single \<^verbatim>\<open>div\<close> without a key.\<close>

theorem recorded_key_is_string_coercion_witness:
  "afterRender exampleDims exampleFocused (Single (VNode ''div'' fmempty None))
     = (exampleFocused\<lparr>key := ''undefined''\<rparr>, [],
        Inr [VNode ''div'' (fmap_of_list [(''onmouseup'', onMouseUp_handler)]) None,
             VNode ''span'' fmempty
               (Some (TriggerResize (exampleWidget ''Text'' fmempty) (JStr ''42'')
                        (JFun ''onFocus'') ''undefined''))])
   \<and> key (exampleFocused\<lparr>key := ''undefined''\<rparr>) = js_String JUndefined
   \<and> set (lookupKeys (fst (onMouseUp exampleDims (exampleFocused\<lparr>key := ''undefined''\<rparr>)
                             (Some MouseEvent)))) \<subseteq> {''undefined''}"
proof -
  have h: "afterRender exampleDims exampleFocused (Single (VNode ''div'' fmempty None))
     = (exampleFocused\<lparr>key := ''undefined''\<rparr>, [],
        Inr [VNode ''div'' (fmap_of_list [(''onmouseup'', onMouseUp_handler)]) None,
             VNode ''span'' fmempty
               (Some (TriggerResize (exampleWidget ''Text'' fmempty) (JStr ''42'')
                        (JFun ''onFocus'') ''undefined''))])"
    by (simp add: Let_def afterRender_def locateWidgetNode_def renderTriggerResizeNode_def isFocus_def
        js_get_def exampleFocused_def exampleInstance_def exampleWidget_def)
  note th = recorded_key_is_string_coercion [OF h]
  from th [THEN conjunct1, rule_format, of "VNode ''div'' fmempty None" fmempty]
  have k: "key (exampleFocused\<lparr>key := ''undefined''\<rparr>) = js_String (js_get fmempty ''key'')"
    by simp
  have u: "js_get fmempty ''key'' = JUndefined" by (simp add: js_get_def)
  from th have "set (lookupKeys (fst (onMouseUp exampleDims (exampleFocused\<lparr>key := ''undefined''\<rparr>)
                             (Some MouseEvent))))
         \<subseteq> {key (exampleFocused\<lparr>key := ''undefined''\<rparr>)}"
    by blast
  then have m: "set (lookupKeys (fst (onMouseUp exampleDims (exampleFocused\<lparr>key := ''undefined''\<rparr>)
                             (Some MouseEvent)))) \<subseteq> {''undefined''}"
    by simp
  from k u have "key (exampleFocused\<lparr>key := ''undefined''\<rparr>) = js_String JUndefined"
    by (simp only:)
  with h m show ?thesis by blast
qed

text \<open>
  Claim C10 says that with exactly one child the resolver always dereferences the child's
  \<^verbatim>\<open>properties.widget.widgetName\<close>, and so returns only if the child carries a widget
  back-reference. Both conditions of \<^verbatim>\<open>beforeProperties\<close> short-circuit before
  \<^verbatim>\<open>_onlyContainsCursor()\<close>: an instance that is not a container and whose persisted value
  is not the empty string never inspects its child. Here the only child is a \<^verbatim>\<open>div\<close>
  without back-reference, on which \<^verbatim>\<open>_onlyContainsCursor()\<close> would raise, and the resolver
  returns the plain merge.
\<close>

theorem cursor_classification_counterexample:
  "children (exampleInstance\<lparr>children := [VNode ''div'' fmempty None]\<rparr>)
     = [VNode ''div'' fmempty None]
   \<and> \<not> hasWidgetReference (VNode ''div'' fmempty None)
   \<and> onlyContainsCursor (exampleInstance\<lparr>children := [VNode ''div'' fmempty None]\<rparr>)
       = Inl TypeError
   \<and> beforeProperties ''emptyContainer''
       (exampleInstance\<lparr>children := [VNode ''div'' fmempty None]\<rparr>)
       (fmap_of_list [(''widget'', exampleWidget ''Text'' fmempty)])
     = Inr (fmap_of_list [(''widget'', exampleWidget ''Text'' fmempty)])"
  by (simp add: beforeProperties_def exampleInstance_def exampleWidget_def
        valuePropertyIsNull_def onlyContainsCursor_def spread_def js_get_def)

text \<open>
  Claim C10, amended. For an editor-managed instance with exactly one child, the cursor
  classification is evaluated when \<^verbatim>\<open>isContainer()\<close> holds or the persisted
  \<^verbatim>\<open>widget.properties.value\<close> is the empty string. Then the resolver returns (raises
  nothing) exactly when the child carries a widget back-reference, and in that case the
  instance is classified as visually empty exactly when the child's
  \<^verbatim>\<open>properties.widget.widgetName\<close> is \<^verbatim>\<open>Cursor\<close>. Otherwise the child is not inspected and
  the resolver returns the persisted properties overridden by the incoming
  configuration.
\<close>

theorem cursor_classification_one_child:
  assumes "children this = [c]" and "truthy (js_get props ''widget'')"
    and "member (js_get props ''widget'') ''properties'' = Inr persisted"
  shows "(isContainer this \<or> valuePropertyIsNull props = Inr (JBool True) \<longrightarrow>
            ((\<exists>r. beforeProperties emptyContainer this props = Inr r) \<longleftrightarrow> hasWidgetReference c)
          \<and> (hasWidgetReference c \<longrightarrow>
               noChildrenOrCursor this = Inr (strict_eq (childWidgetName c) (JStr ''Cursor''))))
       \<and> (\<not> isContainer this \<and> valuePropertyIsNull props \<noteq> Inr (JBool True) \<longrightarrow>
            beforeProperties emptyContainer this props
              = Inr (spread (spread fmempty persisted) (JObj props)))"
proof -
  from valuePropertyIsNull_truthy_widget [OF assms(2)] obtain vn
    where vn: "valuePropertyIsNull props = Inr vn" and t: "truthy vn \<longleftrightarrow> vn = JBool True"
    by blast
  have n: "noChildrenOrCursor this =
           (if hasWidgetReference c then Inr (strict_eq (childWidgetName c) (JStr ''Cursor''))
            else Inl TypeError)"
    using assms(1) onlyContainsCursor_one_child [OF assms(1)]
    by (simp add: noChildrenOrCursor_def)
  show ?thesis
  proof (cases "isContainer this")
    case True
    have "beforeProperties emptyContainer this props =
          (if hasWidgetReference c then
             (if strict_eq (childWidgetName c) (JStr ''Cursor'') then
                Inr (spread (spread (fmap_of_list
                  [(''extraClasses'', JObj (fmap_of_list [(''root'', JStr emptyContainer)]))])
                  persisted) (JObj props))
              else if truthy vn then
                Inr (spread (spread fmempty persisted) (JObj props))
              else Inr (spread (spread fmempty persisted) (JObj props)))
           else Inl TypeError)"
      by (simp add: beforeProperties_container [OF assms(2) True] n vn assms(3))
    with True n show ?thesis by simp
  next
    case False
    have "beforeProperties emptyContainer this props =
          (if truthy vn then
             (if hasWidgetReference c then
                (if strict_eq (childWidgetName c) (JStr ''Cursor'') then
                   Inr (fmupd ''value'' (JStr (getDefaultValue this))
                         (spread (spread fmempty persisted) (JObj props)))
                 else Inr (spread (spread fmempty persisted) (JObj props)))
              else Inl TypeError)
           else Inr (spread (spread fmempty persisted) (JObj props)))"
      by (simp add: beforeProperties_leaf [OF assms(2) False] n vn assms(3))
    with False n vn t show ?thesis by simp
  qed
qed

text \<open>The amended C10 on a container whose only child is the cursor.\<close>

theorem cursor_classification_one_child_witness:
  "children (exampleInstance\<lparr>isContainer := True, children := [exampleCursor]\<rparr>) = [exampleCursor]
   \<and> hasWidgetReference exampleCursor
   \<and> (\<exists>r. beforeProperties ''emptyContainer''
             (exampleInstance\<lparr>isContainer := True, children := [exampleCursor]\<rparr>)
             (fmap_of_list [(''widget'', exampleWidget ''View'' fmempty)]) = Inr r)
   \<and> noChildrenOrCursor (exampleInstance\<lparr>isContainer := True, children := [exampleCursor]\<rparr>)
       = Inr True"
proof -
  let ?c = "exampleInstance\<lparr>isContainer := True, children := [exampleCursor]\<rparr>"
  let ?p = "fmap_of_list [(''widget'', exampleWidget ''View'' fmempty)]"
  have h1: "children ?c = [exampleCursor]" by simp
  have h2: "truthy (js_get ?p ''widget'')" by (simp add: js_get_def exampleWidget_def)
  have h3: "member (js_get ?p ''widget'') ''properties'' = Inr (JObj fmempty)"
    by (simp add: js_get_def exampleWidget_def)
  have h4: "hasWidgetReference exampleCursor"
    by (simp add: exampleCursor_def exampleWidget_def js_get_def)
  have h5: "strict_eq (childWidgetName exampleCursor) (JStr ''Cursor'')"
    by (simp add: exampleCursor_def exampleWidget_def js_get_def)
  have h6: "isContainer ?c" by simp
  from cursor_classification_one_child [OF h1 h2 h3, of "''emptyContainer''"] h4 h5 h6
  show ?thesis by simp
qed

end
